theory Spec2Isabelle
  imports Complex_Main
begin

section \<open>Snowflake mirror generator: the polar pixel model of snowflake.py\<close>

text \<open>
  A shallow embedding of \<^verbatim>\<open>src/snowflake.py\<close>. Python floats are read as real numbers
  (rounding is outside the model), Python ints as \<open>int\<close>. Exceptions are values of
  \<open>py_error\<close>, and a function that can raise returns \<open>py_error + 'a\<close>. The pixel
  dictionary is an association list in insertion order whose keys are objects: an
  address on the heap together with the fields stored there.
\<close>

subsection \<open>Constants\<close>

definition SCREEN_HEIGHT :: int where
  "SCREEN_HEIGHT = 650"

definition RADIANS_IN_CIRCLE :: real where
  "RADIANS_IN_CIRCLE = 2 * pi"

definition CARTESIAN_ORIGIN :: "int \<times> int" where
  "CARTESIAN_ORIGIN = (0, SCREEN_HEIGHT)"

definition CARTESIAN_SIGNS :: "int \<times> int" where
  "CARTESIAN_SIGNS = (1, -1)"

type_synonym color = "int \<times> int \<times> int"

definition BACKGROUND_COLOR :: color where
  "BACKGROUND_COLOR = (124, 124, 154)"

definition SNOWFLAKE_COLOR :: color where
  "SNOWFLAKE_COLOR = (64, 64, 255)"

definition LINE_THICKNESS :: int where
  "LINE_THICKNESS = 4"

definition SNOWFLAKE_SEGMENT_RADIUS :: real where
  "SNOWFLAKE_SEGMENT_RADIUS = 200"

definition SNOWFLAKE_SEGMENT_POSITION :: "int \<times> int" where
  "SNOWFLAKE_SEGMENT_POSITION = (210, 325)"

definition VALID_SIZES :: "int list" where
  "VALID_SIZES = [2, 4, 6, 8, 10, 12]"

definition SNOWFLAKE_RADIUS :: real where
  "SNOWFLAKE_RADIUS = 150"

definition SNOWFLAKE_POSITION :: "int \<times> int" where
  "SNOWFLAKE_POSITION = (600, 325)"

definition ROTATION_SPEED :: real where
  "ROTATION_SPEED = - (8 / 1000)"

definition DEFAULT_SIZE :: int where
  "DEFAULT_SIZE = 6"

definition DEFAULT_MIRROR :: bool where
  "DEFAULT_MIRROR = True"

subsection \<open>Python primitives the source calls\<close>

datatype py_error = ZeroDivisionError | ValueError | KeyError

text \<open>\<^verbatim>\<open>int(x)\<close> on a float truncates towards zero.\<close>

definition py_int :: "real \<Rightarrow> int" where
  "py_int x = (if 0 \<le> x then \<lfloor>x\<rfloor> else \<lceil>x\<rceil>)"

text \<open>
  \<^verbatim>\<open>x % m\<close> on floats, for a positive modulus (the source only ever divides by
  \<^verbatim>\<open>RADIANS_IN_CIRCLE\<close>): the result has the sign of the modulus.
\<close>

definition float_mod :: "real \<Rightarrow> real \<Rightarrow> real" where
  "float_mod x m = x - m * of_int \<lfloor>x / m\<rfloor>"

text \<open>\<^verbatim>\<open>math.hypot\<close> and \<^verbatim>\<open>math.atan2(y, x)\<close> (the angle of the point \<open>(x, y)\<close>).\<close>

definition hypot :: "real \<Rightarrow> real \<Rightarrow> real" where
  "hypot x y = sqrt (x\<^sup>2 + y\<^sup>2)"

definition atan2 :: "real \<Rightarrow> real \<Rightarrow> real" where
  "atan2 y x =
     (if 0 < x then arctan (y / x)
      else if x < 0 then (if 0 \<le> y then arctan (y / x) + pi else arctan (y / x) - pi)
      else if 0 < y then pi / 2
      else if y < 0 then - (pi / 2)
      else 0)"

text \<open>\<^verbatim>\<open>range(n)\<close>: empty when \<open>n \<le> 0\<close>.\<close>

definition py_range :: "int \<Rightarrow> int list" where
  "py_range n = [0..n - 1]"

text \<open>\<^verbatim>\<open>tuple.index(x)\<close>: the first position of \<open>x\<close>, \<^verbatim>\<open>ValueError\<close> when absent.\<close>

fun index_of :: "int \<Rightarrow> int list \<Rightarrow> py_error + int" where
  "index_of x [] = Inl ValueError"
| "index_of x (y # ys) =
     (if x = y then Inr 0
      else case index_of x ys of Inl e \<Rightarrow> Inl e | Inr i \<Rightarrow> Inr (i + 1))"

subsection \<open>to_rectangular\<close>

definition to_rectangular ::
  "real \<Rightarrow> real \<Rightarrow> int \<times> int \<Rightarrow> int \<times> int \<Rightarrow> int \<times> int \<Rightarrow> int \<times> int" where
  "to_rectangular theta radius polar_origin cartesian_origin cartesian_signs =
     (let relative_x = radius * cos theta;
          relative_y = radius * sin theta;
          (polar_x, polar_y) = polar_origin;
          relative_x = real_of_int polar_x + relative_x;
          relative_y = real_of_int polar_y + relative_y;
          (cartesian_x, cartesian_y) = cartesian_origin;
          (sign_x, sign_y) = cartesian_signs;
          relative_x = real_of_int sign_x * relative_x + real_of_int cartesian_x;
          relative_y = real_of_int sign_y * relative_y + real_of_int cartesian_y
      in (py_int relative_x, py_int relative_y))"

text \<open>The call with only \<^verbatim>\<open>polar_origin\<close> given, as every call site of the source has it.\<close>

definition to_rectangular_default :: "real \<Rightarrow> real \<Rightarrow> int \<times> int \<Rightarrow> int \<times> int" where
  "to_rectangular_default theta radius polar_origin =
     to_rectangular theta radius polar_origin CARTESIAN_ORIGIN CARTESIAN_SIGNS"

subsection \<open>PolarPoint\<close>

record PolarPoint =
  radius :: real
  theta :: real

definition from_rectangular :: "int \<times> int \<Rightarrow> int \<times> int \<Rightarrow> PolarPoint" where
  "from_rectangular point origin =
     (let (raw_x, raw_y) = point;
          (origin_x, origin_y) = origin;
          relative_x = raw_x - origin_x;
          relative_y = raw_y - origin_y;
          radius = hypot (real_of_int relative_x) (real_of_int relative_y);
          theta_radians = atan2 (real_of_int relative_y) (real_of_int relative_x);
          theta = float_mod theta_radians RADIANS_IN_CIRCLE
      in \<lparr>radius = radius, theta = theta\<rparr>)"

text \<open>
  A PolarPoint object is its address and its fields. The class defines \<^verbatim>\<open>__hash__\<close>
  (the hash of the tuple \<open>(theta, radius)\<close>, modelled by the tuple itself) and no
  \<^verbatim>\<open>__eq__\<close>, so \<^verbatim>\<open>==\<close> is the one inherited from \<^verbatim>\<open>object\<close>: identity.
\<close>

type_synonym PolarPoint_obj = "nat \<times> PolarPoint"

definition py_hash :: "PolarPoint_obj \<Rightarrow> real \<times> real" where
  "py_hash p = (theta (snd p), radius (snd p))"

definition py_eq :: "PolarPoint_obj \<Rightarrow> PolarPoint_obj \<Rightarrow> bool" where
  "py_eq p q = (fst p = fst q)"

subsection \<open>The dictionary of pixels\<close>

type_synonym pixel_dict = "(PolarPoint_obj \<times> int) list"

text \<open>A stored key is the looked-up key when the hashes agree and the keys are equal.\<close>

definition key_match :: "PolarPoint_obj \<Rightarrow> PolarPoint_obj \<Rightarrow> bool" where
  "key_match k k' = (py_hash k = py_hash k' \<and> py_eq k k')"

fun dict_setitem :: "PolarPoint_obj \<Rightarrow> int \<Rightarrow> pixel_dict \<Rightarrow> pixel_dict" where
  "dict_setitem k v [] = [(k, v)]"
| "dict_setitem k v ((k', v') # d) =
     (if key_match k k' then (k', v) # d else (k', v') # dict_setitem k v d)"

fun dict_pop :: "PolarPoint_obj \<Rightarrow> pixel_dict \<Rightarrow> py_error + pixel_dict" where
  "dict_pop k [] = Inl KeyError"
| "dict_pop k ((k', v') # d) =
     (if key_match k k' then Inr d
      else case dict_pop k d of Inl e \<Rightarrow> Inl e | Inr d' \<Rightarrow> Inr ((k', v') # d'))"

subsection \<open>SnowflakeSegment\<close>

record SnowflakeSegment =
  seg_radius :: real
  seg_size :: int
  seg_origin :: "int \<times> int"
  seg_centered_angle :: real

definition contains_point :: "SnowflakeSegment \<Rightarrow> PolarPoint \<Rightarrow> py_error + bool" where
  "contains_point self point =
     (if seg_size self = 0 then Inl ZeroDivisionError
      else
        let angle_arc = RADIANS_IN_CIRCLE / real_of_int (seg_size self);
            angle_begin = RADIANS_IN_CIRCLE - (angle_arc / 2);
            angle_end = angle_arc / 2
        in if theta point < angle_begin \<and> theta point > angle_end then Inr False
           else if radius point > seg_radius self \<or> radius point < 0 then Inr False
           else Inr True)"

text \<open>
  The four numbers handed to \<^verbatim>\<open>pygame.Rect\<close>, which reads them as
  \<open>(left, top, width, height)\<close>.
\<close>

record Rect =
  rect_left :: real
  rect_top :: real
  rect_width :: real
  rect_height :: real

definition segment_get_region :: "SnowflakeSegment \<Rightarrow> bool \<Rightarrow> py_error + Rect" where
  "segment_get_region self update =
     (let (x_1, origin_y) = seg_origin self
      in case index_of (seg_size self) VALID_SIZES of
           Inl e \<Rightarrow> Inl e
         | Inr current_size \<Rightarrow>
             let current_size = current_size - 1;
                 current_size = current_size mod int (length VALID_SIZES);
                 min_size = min (seg_size self) (VALID_SIZES ! nat current_size)
             in if min_size = 0 then Inl ZeroDivisionError
                else
                  let arc = RADIANS_IN_CIRCLE / real_of_int min_size;
                      height = sin (arc / 2) * seg_radius self;
                      y_1 = real_of_int origin_y - height;
                      (x_2, y_2) =
                        (if update then (real_of_int x_1 + seg_radius self, real_of_int origin_y + height)
                         else (seg_radius self, height * 2));
                      x_1 = real_of_int x_1 - real_of_int LINE_THICKNESS;
                      y_1 = y_1 - real_of_int LINE_THICKNESS;
                      x_2 = x_2 + real_of_int (LINE_THICKNESS * 2);
                      y_2 = y_2 + real_of_int (LINE_THICKNESS * 2)
                  in Inr \<lparr>rect_left = x_1, rect_top = y_1, rect_width = x_2, rect_height = y_2\<rparr>)"

subsection \<open>Snowflake\<close>

record Snowflake =
  sf_radius :: real
  sf_size :: int
  sf_origin :: "int \<times> int"
  sf_mirror :: bool
  sf_pixels :: pixel_dict
  sf_current_angle :: real

definition new_Snowflake :: "real \<Rightarrow> int \<Rightarrow> int \<times> int \<Rightarrow> bool \<Rightarrow> Snowflake" where
  "new_Snowflake r n origin mirror =
     \<lparr>sf_radius = r, sf_size = n, sf_origin = origin, sf_mirror = mirror,
      sf_pixels = [], sf_current_angle = 0\<rparr>"

definition set_pixel :: "Snowflake \<Rightarrow> PolarPoint_obj \<Rightarrow> int \<Rightarrow> Snowflake" where
  "set_pixel self point v = self\<lparr>sf_pixels := dict_setitem point v (sf_pixels self)\<rparr>"

definition clear_pixels :: "Snowflake \<Rightarrow> Snowflake" where
  "clear_pixels self = self\<lparr>sf_pixels := []\<rparr>"

text \<open>The first loop of \<^verbatim>\<open>clear_pixels_outside\<close>: the keys to discard, in dictionary order.\<close>

fun collect_outside ::
  "Snowflake \<Rightarrow> SnowflakeSegment \<Rightarrow> pixel_dict \<Rightarrow> py_error + PolarPoint_obj list" where
  "collect_outside self segment [] = Inr []"
| "collect_outside self segment ((pixel, v) # rest) =
     (if sf_radius self = 0 then Inl ZeroDivisionError
      else
        let real_radius = radius (snd pixel) * seg_radius segment / sf_radius self;
            point = \<lparr>radius = real_radius, theta = theta (snd pixel)\<rparr>
        in case contains_point segment point of
             Inl e \<Rightarrow> Inl e
           | Inr inside \<Rightarrow>
               (case collect_outside self segment rest of
                  Inl e \<Rightarrow> Inl e
                | Inr to_delete \<Rightarrow> Inr (if inside then to_delete else pixel # to_delete)))"

text \<open>The second loop: pop every collected key.\<close>

fun pop_all :: "PolarPoint_obj list \<Rightarrow> pixel_dict \<Rightarrow> py_error + pixel_dict" where
  "pop_all [] d = Inr d"
| "pop_all (pixel # to_delete) d =
     (case dict_pop pixel d of Inl e \<Rightarrow> Inl e | Inr d' \<Rightarrow> pop_all to_delete d')"

definition clear_pixels_outside :: "Snowflake \<Rightarrow> SnowflakeSegment \<Rightarrow> py_error + Snowflake" where
  "clear_pixels_outside self segment =
     (case collect_outside self segment (sf_pixels self) of
        Inl e \<Rightarrow> Inl e
      | Inr to_delete \<Rightarrow>
          (case pop_all to_delete (sf_pixels self) of
             Inl e \<Rightarrow> Inl e
           | Inr d \<Rightarrow> Inr (self\<lparr>sf_pixels := d\<rparr>)))"

definition rotate_snowflake :: "Snowflake \<Rightarrow> real \<Rightarrow> Snowflake" where
  "rotate_snowflake self angle =
     self\<lparr>sf_current_angle := float_mod (sf_current_angle self + angle) RADIANS_IN_CIRCLE\<rparr>"

definition snowflake_get_region :: "Snowflake \<Rightarrow> bool \<Rightarrow> Rect" where
  "snowflake_get_region self update =
     (let (origin_x, origin_y) = sf_origin self;
          (x_1, y_1) = (real_of_int origin_x - sf_radius self, real_of_int origin_y - sf_radius self);
          (x_2, y_2) =
            (if update then (real_of_int origin_x + sf_radius self, real_of_int origin_y + sf_radius self)
             else (sf_radius self * 2, sf_radius self * 2));
          x_1 = x_1 - real_of_int LINE_THICKNESS;
          y_1 = y_1 - real_of_int LINE_THICKNESS;
          x_2 = x_2 + real_of_int (LINE_THICKNESS * 2);
          y_2 = y_2 + real_of_int (LINE_THICKNESS * 2)
      in \<lparr>rect_left = x_1, rect_top = y_1, rect_width = x_2, rect_height = y_2\<rparr>)"

subsection \<open>Drawing: the calls made on the surface, in order\<close>

datatype draw_cmd = Circle (cmd_color: color) (cmd_center: "int \<times> int") (cmd_radius: int)

definition pixel_color :: "int \<Rightarrow> color" where
  "pixel_color v = (if v = 1 then SNOWFLAKE_COLOR else BACKGROUND_COLOR)"

fun draw_segment_items ::
  "Snowflake \<Rightarrow> SnowflakeSegment \<Rightarrow> pixel_dict \<Rightarrow> py_error + draw_cmd list" where
  "draw_segment_items self segment [] = Inr []"
| "draw_segment_items self segment ((pixel, v) # rest) =
     (if sf_radius self = 0 then Inl ZeroDivisionError
      else
        let real_radius = radius (snd pixel) * seg_radius segment / sf_radius self;
            xy = to_rectangular_default (theta (snd pixel)) real_radius (seg_origin segment);
            color = pixel_color v
        in case draw_segment_items self segment rest of
             Inl e \<Rightarrow> Inl e
           | Inr cmds \<Rightarrow> Inr (Circle color xy LINE_THICKNESS # cmds))"

definition draw_segment :: "Snowflake \<Rightarrow> SnowflakeSegment \<Rightarrow> py_error + draw_cmd list" where
  "draw_segment self segment = draw_segment_items self segment (sf_pixels self)"

text \<open>The placement angle of slot \<open>i\<close>: the body of the inner loop of \<^verbatim>\<open>draw_pixels\<close>.\<close>

definition real_theta :: "Snowflake \<Rightarrow> real \<Rightarrow> PolarPoint \<Rightarrow> int \<Rightarrow> real" where
  "real_theta self arc pixel i =
     (let real_theta =
            (if sf_mirror self then
               (if i mod 2 = 0 then real_of_int i * arc + theta pixel
                else real_of_int i * arc - theta pixel)
             else real_of_int i * arc + theta pixel)
      in real_theta + sf_current_angle self)"

fun draw_pixels_items :: "Snowflake \<Rightarrow> pixel_dict \<Rightarrow> py_error + draw_cmd list" where
  "draw_pixels_items self [] = Inr []"
| "draw_pixels_items self ((pixel, v) # rest) =
     (if sf_size self = 0 then Inl ZeroDivisionError
      else
        let arc = RADIANS_IN_CIRCLE / real_of_int (sf_size self);
            slots =
              map (\<lambda>i. Circle (pixel_color v)
                          (to_rectangular_default (real_theta self arc (snd pixel) i)
                             (radius (snd pixel)) (sf_origin self))
                          LINE_THICKNESS)
                (py_range (sf_size self))
        in case draw_pixels_items self rest of
             Inl e \<Rightarrow> Inl e
           | Inr cmds \<Rightarrow> Inr (slots @ cmds))"

definition draw_pixels :: "Snowflake \<Rightarrow> py_error + draw_cmd list" where
  "draw_pixels self = draw_pixels_items self (sf_pixels self)"

subsection \<open>The main loop\<close>

datatype key = K_r | K_m | K_TAB | K_BACKSPACE | K_DELETE | K_OTHER

datatype event = QUIT | KEYDOWN key | OTHER_EVENT

record frame_input =
  events :: "event list"
  MB1 :: bool
  mouse_pos :: "int \<times> int"

text \<open>
  The part of the loop's state the pixel model reads and writes; \<open>heap_next\<close> is the
  address the next allocated PolarPoint gets. The redraw flags and the drawing calls
  only read this state.
\<close>

record main_state =
  running :: bool
  rotate_on :: bool
  segment :: SnowflakeSegment
  snowflake :: Snowflake
  heap_next :: nat

definition init_state :: main_state where
  "init_state =
     \<lparr>running = True, rotate_on = True,
      segment = \<lparr>seg_radius = SNOWFLAKE_SEGMENT_RADIUS, seg_size = DEFAULT_SIZE,
                 seg_origin = SNOWFLAKE_SEGMENT_POSITION, seg_centered_angle = 0\<rparr>,
      snowflake = new_Snowflake SNOWFLAKE_RADIUS DEFAULT_SIZE SNOWFLAKE_POSITION DEFAULT_MIRROR,
      heap_next = 0\<rparr>"

definition handle_event :: "main_state \<Rightarrow> event \<Rightarrow> py_error + main_state" where
  "handle_event s ev =
     (case ev of
        QUIT \<Rightarrow> Inr (s\<lparr>running := False\<rparr>)
      | OTHER_EVENT \<Rightarrow> Inr s
      | KEYDOWN k \<Rightarrow>
          let s = (if k = K_r then s\<lparr>rotate_on := \<not> rotate_on s\<rparr> else s)
          in if k = K_m then
               Inr (s\<lparr>snowflake := (snowflake s)\<lparr>sf_mirror := \<not> sf_mirror (snowflake s)\<rparr>\<rparr>)
             else if k = K_TAB then
               (case index_of (sf_size (snowflake s)) VALID_SIZES of
                  Inl e \<Rightarrow> Inl e
                | Inr current_size \<Rightarrow>
                    let current_size = current_size + 1;
                        current_size = current_size mod int (length VALID_SIZES);
                        sf = (snowflake s)\<lparr>sf_size := VALID_SIZES ! nat current_size\<rparr>;
                        seg = (segment s)\<lparr>seg_size := VALID_SIZES ! nat current_size\<rparr>
                    in (case clear_pixels_outside sf seg of
                          Inl e \<Rightarrow> Inl e
                        | Inr sf' \<Rightarrow> Inr (s\<lparr>segment := seg, snowflake := sf'\<rparr>)))
             else if k = K_BACKSPACE \<or> k = K_DELETE then
               Inr (s\<lparr>snowflake := clear_pixels (snowflake s)\<rparr>)
             else Inr s)"

fun handle_events :: "main_state \<Rightarrow> event list \<Rightarrow> py_error + main_state" where
  "handle_events s [] = Inr s"
| "handle_events s (ev # evs) =
     (case handle_event s ev of Inl e \<Rightarrow> Inl e | Inr s' \<Rightarrow> handle_events s' evs)"

definition cursor_logic :: "main_state \<Rightarrow> frame_input \<Rightarrow> py_error + main_state" where
  "cursor_logic s inp =
     (if MB1 inp then
        let (mouse_x, mouse_y) = mouse_pos inp;
            mouse_y = SCREEN_HEIGHT - mouse_y;
            address = heap_next s;
            polar_position = from_rectangular (mouse_x, mouse_y) (seg_origin (segment s));
            s = s\<lparr>heap_next := address + 1\<rparr>
        in case contains_point (segment s) polar_position of
             Inl e \<Rightarrow> Inl e
           | Inr inside \<Rightarrow>
               if inside then
                 (if seg_radius (segment s) = 0 then Inl ZeroDivisionError
                  else
                    let polar_position =
                          polar_position\<lparr>radius := radius polar_position *
                                             (sf_radius (snowflake s) / seg_radius (segment s))\<rparr>
                    in Inr (s\<lparr>snowflake := set_pixel (snowflake s) (address, polar_position) 1\<rparr>))
               else Inr s
      else Inr s)"

definition output_logic :: "main_state \<Rightarrow> main_state" where
  "output_logic s =
     (if rotate_on s then s\<lparr>snowflake := rotate_snowflake (snowflake s) ROTATION_SPEED\<rparr> else s)"

text \<open>One iteration of \<^verbatim>\<open>while running\<close>.\<close>

definition frame :: "main_state \<Rightarrow> frame_input \<Rightarrow> py_error + main_state" where
  "frame s inp =
     (case handle_events s (events inp) of
        Inl e \<Rightarrow> Inl e
      | Inr s1 \<Rightarrow>
          (case cursor_logic s1 inp of
             Inl e \<Rightarrow> Inl e
           | Inr s2 \<Rightarrow> Inr (output_logic s2)))"

inductive reachable :: "main_state \<Rightarrow> bool" where
  reachable_init: "reachable init_state"
| reachable_frame: "reachable s \<Longrightarrow> running s \<Longrightarrow> frame s inp = Inr s' \<Longrightarrow> reachable s'"

subsection \<open>The containment test in the specification's words\<close>

text \<open>
  Not from the source: the radius within \<open>[0, segment.radius]\<close> and theta, modulo
  \<open>2\<pi>\<close>, within \<open>[centered_angle - half_arc, centered_angle + half_arc]\<close> where
  \<open>half_arc = \<pi> / size\<close>. It is compared with \<open>contains_point\<close> below.
\<close>

definition contains_spec :: "SnowflakeSegment \<Rightarrow> PolarPoint \<Rightarrow> bool" where
  "contains_spec self point =
     (let half_arc = pi / real_of_int (seg_size self)
      in 0 \<le> radius point \<and> radius point \<le> seg_radius self
         \<and> (\<exists>k::int.
               seg_centered_angle self - half_arc \<le> theta point + 2 * pi * real_of_int k
               \<and> theta point + 2 * pi * real_of_int k \<le> seg_centered_angle self + half_arc))"

subsection \<open>The invariant of the main loop\<close>

text \<open>
  What every iteration keeps: the radii fixed at start-up, a valid slice count shared by
  the segment and the snowflake, and only the value 1 in the dictionary.
\<close>

definition main_inv :: "main_state \<Rightarrow> bool" where
  "main_inv s =
     (sf_radius (snowflake s) = SNOWFLAKE_RADIUS
      \<and> seg_radius (segment s) = SNOWFLAKE_SEGMENT_RADIUS
      \<and> sf_size (snowflake s) \<in> set VALID_SIZES
      \<and> seg_size (segment s) = sf_size (snowflake s)
      \<and> list_all (\<lambda>(pixel, v). v = 1) (sf_pixels (snowflake s)))"

section \<open>Properties\<close>

subsection \<open>Float remainder\<close>




subsection \<open>Rotation\<close>


subsection \<open>Replication: the placement angles of draw_pixels\<close>

lemma draw_pixels_items_slots:
  "sf_size sf \<noteq> 0 \<Longrightarrow>
   draw_pixels_items sf d =
     Inr (concat (map (\<lambda>(pixel, v).
            map (\<lambda>i. Circle (pixel_color v)
                   (to_rectangular_default
                      (real_theta sf (RADIANS_IN_CIRCLE / real_of_int (sf_size sf)) (snd pixel) i)
                      (radius (snd pixel)) (sf_origin sf))
                   LINE_THICKNESS)
              (py_range (sf_size sf))) d))"
  by (induction d) (auto simp: Let_def)

lemma length_py_range: "length (py_range n) = nat n"
  by (simp add: py_range_def)

lemma real_theta_clone:
  "\<not> sf_mirror sf \<Longrightarrow> real_theta sf arc p i = real_of_int i * arc + theta p + sf_current_angle sf"
  by (simp add: real_theta_def)

lemma real_theta_clone_step:
  "\<not> sf_mirror sf \<Longrightarrow> real_theta sf arc p (i + 1) - real_theta sf arc p i = arc"
  by (simp add: real_theta_clone algebra_simps)

lemma real_theta_clone_diff:
  "\<not> sf_mirror sf \<Longrightarrow>
   real_theta sf arc p j - real_theta sf arc p i = real_of_int (j - i) * arc"
  by (simp add: real_theta_clone algebra_simps)

lemma real_theta_mirror_pair:
  assumes "sf_mirror sf" and "i mod 2 = 1"
  shows "(real_theta sf arc p i - sf_current_angle sf)
       + (real_theta sf arc p (i - 1) - sf_current_angle sf) = real_of_int (2 * i - 1) * arc"
proof -
  have "(i - 1) mod 2 = 0" using assms(2) by presburger
  then show ?thesis using assms
    by (simp add: real_theta_def algebra_simps)
qed

lemma not_full_turns:
  fixes i j n k :: int
  assumes "0 \<le> i" "i < j" "j < n"
  shows "real_of_int (j - i) * (2 * pi / real_of_int n) \<noteq> 2 * pi * real_of_int k"
proof
  assume eq: "real_of_int (j - i) * (2 * pi / real_of_int n) = 2 * pi * real_of_int k"
  have n: "0 < real_of_int n" using assms by simp
  from eq have "(2 * pi) * (real_of_int (j - i) / real_of_int n) = (2 * pi) * real_of_int k"
    by (simp add: algebra_simps)
  then have "real_of_int (j - i) / real_of_int n = real_of_int k"
    by (simp only: mult_cancel_left) simp
  then have "real_of_int (j - i) = real_of_int k * real_of_int n"
    using n by (simp add: field_simps)
  then have "real_of_int (j - i) = real_of_int (k * n)" by simp
  then have e: "j - i = k * n" by (simp only: of_int_eq_iff)
  have "0 < j - i" "j - i < n" using assms by simp_all
  with e have "0 < k * n" "k * n < n" by simp_all
  then have "0 < k" "k < 1" using assms
    by (simp_all add: zero_less_mult_iff)
  then show False by simp
qed

lemma cos_3pi2: "cos (3 * pi / 2) = 0" using cos_3over2_pi by (simp add: mult.commute)
lemma sin_3pi2: "sin (3 * pi / 2) = - 1" using sin_3over2_pi by (simp add: mult.commute)

text \<open>
  C3. In cloning mode (\<open>mirror = False\<close>) with size \<open>N > 0\<close>, \<^verbatim>\<open>draw_pixels\<close> draws, for
  every stored pixel, one circle per slot \<open>i = 0, ..., N - 1\<close>, at the screen point of
  the angle \<open>i \<cdot> (2\<pi>/N) + theta + rotation\<close>: that is \<open>N\<close> circles per pixel.
  Consecutive placement angles differ by exactly \<open>2\<pi>/N\<close>, and no two of the \<open>N\<close>
  angles differ by a whole number of turns.
\<close>

theorem draw_pixels_clone:
  assumes "\<not> sf_mirror sf" and "0 < sf_size sf"
  shows "draw_pixels sf =
     Inr (concat (map (\<lambda>(pixel, v).
            map (\<lambda>i. Circle (pixel_color v)
                   (to_rectangular_default
                      (real_of_int i * (2 * pi / real_of_int (sf_size sf)) + theta (snd pixel)
                         + sf_current_angle sf)
                      (radius (snd pixel)) (sf_origin sf))
                   LINE_THICKNESS)
              (py_range (sf_size sf))) (sf_pixels sf)))
   \<and> length (py_range (sf_size sf)) = nat (sf_size sf)
   \<and> real_theta sf (2 * pi / real_of_int (sf_size sf)) p (i + 1)
       - real_theta sf (2 * pi / real_of_int (sf_size sf)) p i = 2 * pi / real_of_int (sf_size sf)
   \<and> (0 \<le> i \<and> i < j \<and> j < sf_size sf \<longrightarrow>
        (\<forall>k::int. real_theta sf (2 * pi / real_of_int (sf_size sf)) p j
           - real_theta sf (2 * pi / real_of_int (sf_size sf)) p i \<noteq> 2 * pi * real_of_int k))"
proof -
  have nz: "sf_size sf \<noteq> 0" using assms by simp
  have a: "draw_pixels sf =
     Inr (concat (map (\<lambda>(pixel, v).
            map (\<lambda>i. Circle (pixel_color v)
                   (to_rectangular_default
                      (real_of_int i * (2 * pi / real_of_int (sf_size sf)) + theta (snd pixel)
                         + sf_current_angle sf)
                      (radius (snd pixel)) (sf_origin sf))
                   LINE_THICKNESS)
              (py_range (sf_size sf))) (sf_pixels sf)))"
    unfolding draw_pixels_def draw_pixels_items_slots [OF nz]
    by (simp add: real_theta_clone [OF assms(1)] RADIANS_IN_CIRCLE_def)
  have c: "real_theta sf (2 * pi / real_of_int (sf_size sf)) p (i + 1)
       - real_theta sf (2 * pi / real_of_int (sf_size sf)) p i = 2 * pi / real_of_int (sf_size sf)"
    by (rule real_theta_clone_step [OF assms(1)])
  have d: "0 \<le> i \<and> i < j \<and> j < sf_size sf \<longrightarrow>
        (\<forall>k::int. real_theta sf (2 * pi / real_of_int (sf_size sf)) p j
           - real_theta sf (2 * pi / real_of_int (sf_size sf)) p i \<noteq> 2 * pi * real_of_int k)"
  proof (intro impI allI)
    fix k :: int
    assume h: "0 \<le> i \<and> i < j \<and> j < sf_size sf"
    have "real_theta sf (2 * pi / real_of_int (sf_size sf)) p j
           - real_theta sf (2 * pi / real_of_int (sf_size sf)) p i
          = real_of_int (j - i) * (2 * pi / real_of_int (sf_size sf))"
      by (rule real_theta_clone_diff [OF assms(1)])
    then show "real_theta sf (2 * pi / real_of_int (sf_size sf)) p j
           - real_theta sf (2 * pi / real_of_int (sf_size sf)) p i \<noteq> 2 * pi * real_of_int k"
      using not_full_turns [of i j "sf_size sf" k] h by simp
  qed
  from a c d show ?thesis by (simp add: length_py_range)
qed

theorem draw_pixels_clone_witness:
  "\<not> sf_mirror \<lparr>sf_radius = 150, sf_size = 4, sf_origin = (600, 325), sf_mirror = False,
                 sf_pixels = [((0, \<lparr>radius = 100, theta = 0\<rparr>), 1)], sf_current_angle = 0\<rparr>
   \<and> draw_pixels \<lparr>sf_radius = 150, sf_size = 4, sf_origin = (600, 325), sf_mirror = False,
                 sf_pixels = [((0, \<lparr>radius = 100, theta = 0\<rparr>), 1)], sf_current_angle = 0\<rparr>
       = Inr [Circle SNOWFLAKE_COLOR (700, 325) 4, Circle SNOWFLAKE_COLOR (600, 225) 4,
              Circle SNOWFLAKE_COLOR (500, 325) 4, Circle SNOWFLAKE_COLOR (600, 425) 4]
   \<and> (\<forall>k::int. real_theta \<lparr>sf_radius = 150, sf_size = 4, sf_origin = (600, 325), sf_mirror = False,
                 sf_pixels = [((0, \<lparr>radius = 100, theta = 0\<rparr>), 1)], sf_current_angle = 0\<rparr>
                 (2 * pi / 4) \<lparr>radius = 100, theta = 0\<rparr> 3
             - real_theta \<lparr>sf_radius = 150, sf_size = 4, sf_origin = (600, 325), sf_mirror = False,
                 sf_pixels = [((0, \<lparr>radius = 100, theta = 0\<rparr>), 1)], sf_current_angle = 0\<rparr>
                 (2 * pi / 4) \<lparr>radius = 100, theta = 0\<rparr> 0 \<noteq> 2 * pi * real_of_int k)"
proof -
  let ?sf = "\<lparr>sf_radius = 150, sf_size = 4, sf_origin = (600, 325), sf_mirror = False,
                 sf_pixels = [((0, \<lparr>radius = 100, theta = 0\<rparr>), 1)], sf_current_angle = 0\<rparr>"
  have h1: "\<not> sf_mirror ?sf" by simp
  have h2: "0 < sf_size ?sf" by simp
  note t = draw_pixels_clone [OF h1 h2, of "\<lparr>radius = 100, theta = 0\<rparr>" 0 3]
  have r: "py_range 4 = [0, 1, 2, 3]" by (simp add: py_range_def upto.simps)
  from t have d: "draw_pixels ?sf
       = Inr [Circle SNOWFLAKE_COLOR (700, 325) 4, Circle SNOWFLAKE_COLOR (600, 225) 4,
              Circle SNOWFLAKE_COLOR (500, 325) 4, Circle SNOWFLAKE_COLOR (600, 425) 4]"
    by (simp add: r to_rectangular_default_def to_rectangular_def py_int_def pixel_color_def
        LINE_THICKNESS_def CARTESIAN_ORIGIN_def CARTESIAN_SIGNS_def SCREEN_HEIGHT_def
        cos_3pi2 sin_3pi2)
  from t have e: "\<forall>k::int. real_theta ?sf (2 * pi / 4) \<lparr>radius = 100, theta = 0\<rparr> 3
             - real_theta ?sf (2 * pi / 4) \<lparr>radius = 100, theta = 0\<rparr> 0 \<noteq> 2 * pi * real_of_int k"
    by simp
  from h1 d e show ?thesis by blast
qed

text \<open>
  C4, as the code has it. In mirror mode, for an even size \<open>N\<close> and an odd slot
  \<open>i\<close> in \<open>[0, N)\<close>, the placement angles of slot \<open>i\<close> and of slot \<open>i - 1\<close>, with the
  common rotation offset taken off, sum to \<open>(2i - 1) \<cdot> (2\<pi>/N)\<close>: the two copies are mirror
  images about the angle \<open>(i - 1/2) \<cdot> (2\<pi>/N)\<close>, the edge the two slots share.
\<close>

theorem mirror_pair_sum:
  assumes "sf_mirror sf" and "sf_size sf mod 2 = 0"
    and "0 \<le> i" and "i < sf_size sf" and "i mod 2 = 1"
  shows "(real_theta sf (RADIANS_IN_CIRCLE / real_of_int (sf_size sf)) p i - sf_current_angle sf)
       + (real_theta sf (RADIANS_IN_CIRCLE / real_of_int (sf_size sf)) p (i - 1) - sf_current_angle sf)
       = real_of_int (2 * i - 1) * (2 * pi / real_of_int (sf_size sf))"
  using real_theta_mirror_pair [OF assms(1) assms(5), of "RADIANS_IN_CIRCLE / real_of_int (sf_size sf)" p]
  by (simp add: RADIANS_IN_CIRCLE_def)

theorem mirror_pair_sum_witness:
  "sf_mirror \<lparr>sf_radius = 150, sf_size = 6, sf_origin = (600, 325), sf_mirror = True,
              sf_pixels = [], sf_current_angle = 1\<rparr>
   \<and> (real_theta \<lparr>sf_radius = 150, sf_size = 6, sf_origin = (600, 325), sf_mirror = True,
              sf_pixels = [], sf_current_angle = 1\<rparr> (RADIANS_IN_CIRCLE / real_of_int 6)
              \<lparr>radius = 100, theta = 1 / 4\<rparr> 3 - 1)
     + (real_theta \<lparr>sf_radius = 150, sf_size = 6, sf_origin = (600, 325), sf_mirror = True,
              sf_pixels = [], sf_current_angle = 1\<rparr> (RADIANS_IN_CIRCLE / real_of_int 6)
              \<lparr>radius = 100, theta = 1 / 4\<rparr> 2 - 1)
     = 5 * (2 * pi / 6)"
proof -
  let ?sf = "\<lparr>sf_radius = 150, sf_size = 6, sf_origin = (600, 325), sf_mirror = True,
              sf_pixels = [], sf_current_angle = 1\<rparr>"
  have h1: "sf_mirror ?sf" by simp
  have h2: "sf_size ?sf mod 2 = 0" by simp
  have h3: "(0::int) \<le> 3" by simp
  have h4: "3 < sf_size ?sf" by simp
  have h5: "(3::int) mod 2 = 1" by simp
  from mirror_pair_sum [OF h1 h2 h3 h4 h5, of "\<lparr>radius = 100, theta = 1 / 4\<rparr>"] h1
  show ?thesis by simp
qed

text \<open>
  The sum is not \<open>2 \<cdot> i \<cdot> (2\<pi>/N)\<close> modulo \<open>2\<pi>\<close>: with \<open>N = 2\<close>, \<open>i = 1\<close> and a pixel at
  angle \<open>0\<close> the two placement angles are \<open>\<pi>\<close> and \<open>0\<close>, and \<open>\<pi>\<close> differs from \<open>2\<pi>\<close> by
  no whole number of turns.
\<close>

theorem mirror_pair_sum_counterexample:
  "\<not> (\<exists>k::int.
        real_theta \<lparr>sf_radius = 1, sf_size = 2, sf_origin = (0, 0), sf_mirror = True,
                    sf_pixels = [], sf_current_angle = 0\<rparr>
                   (RADIANS_IN_CIRCLE / real_of_int 2) \<lparr>radius = 1, theta = 0\<rparr> 1
      + real_theta \<lparr>sf_radius = 1, sf_size = 2, sf_origin = (0, 0), sf_mirror = True,
                    sf_pixels = [], sf_current_angle = 0\<rparr>
                   (RADIANS_IN_CIRCLE / real_of_int 2) \<lparr>radius = 1, theta = 0\<rparr> 0
      = 2 * real_of_int 1 * (RADIANS_IN_CIRCLE / real_of_int 2) + 2 * pi * real_of_int k)"
proof
  assume "\<exists>k::int.
        real_theta \<lparr>sf_radius = 1, sf_size = 2, sf_origin = (0, 0), sf_mirror = True,
                    sf_pixels = [], sf_current_angle = 0\<rparr>
                   (RADIANS_IN_CIRCLE / real_of_int 2) \<lparr>radius = 1, theta = 0\<rparr> 1
      + real_theta \<lparr>sf_radius = 1, sf_size = 2, sf_origin = (0, 0), sf_mirror = True,
                    sf_pixels = [], sf_current_angle = 0\<rparr>
                   (RADIANS_IN_CIRCLE / real_of_int 2) \<lparr>radius = 1, theta = 0\<rparr> 0
      = 2 * real_of_int 1 * (RADIANS_IN_CIRCLE / real_of_int 2) + 2 * pi * real_of_int k"
  then obtain k :: int where "pi = 2 * pi + 2 * pi * real_of_int k"
    by (auto simp: real_theta_def RADIANS_IN_CIRCLE_def)
  then have "pi * 1 = pi * (2 + 2 * real_of_int k)" by (simp add: algebra_simps)
  then have "1 = 2 + 2 * real_of_int k" by (simp only: mult_cancel_left) simp
  then have "real_of_int 1 = real_of_int (2 + 2 * k)" by simp
  then have "1 = 2 + 2 * k" by (simp only: of_int_eq_iff)
  then show False by presburger
qed

subsection \<open>Pruning the dictionary\<close>

text \<open>
  Hash and identity together single out one object, so a key matches only itself.
\<close>

lemma key_match_iff: "key_match k k' \<longleftrightarrow> k = k'"
  by (auto simp: key_match_def py_hash_def py_eq_def prod_eq_iff)

lemma contains_point_total:
  "seg_size seg \<noteq> 0 \<Longrightarrow> \<exists>b. contains_point seg p = Inr b"
  by (auto simp: contains_point_def Let_def)

lemma collect_outside_filter:
  assumes "sf_radius sf \<noteq> 0" and "seg_size seg \<noteq> 0"
  shows "collect_outside sf seg d =
     Inr (map fst (filter (\<lambda>(pixel, v).
            contains_point seg \<lparr>radius = radius (snd pixel) * seg_radius seg / sf_radius sf,
                                theta = theta (snd pixel)\<rparr> \<noteq> Inr True) d))"
proof (induction d)
  case Nil
  show ?case by simp
next
  case (Cons e d)
  obtain pixel v where e: "e = (pixel, v)" by (cases e)
  obtain b where b: "contains_point seg \<lparr>radius = radius (snd pixel) * seg_radius seg / sf_radius sf,
                                theta = theta (snd pixel)\<rparr> = Inr b"
    using contains_point_total [OF assms(2)] by blast
  show ?case using Cons.IH assms(1) by (simp add: e b Let_def)
qed

lemma pop_all_skip_head:
  "k \<notin> set ks \<Longrightarrow>
   pop_all ks ((k, v) # d) = (case pop_all ks d of Inl e \<Rightarrow> Inl e | Inr d' \<Rightarrow> Inr ((k, v) # d'))"
proof (induction ks arbitrary: d)
  case Nil
  show ?case by simp
next
  case (Cons k1 ks)
  then have ne: "k1 \<noteq> k" and notin: "k \<notin> set ks" by auto
  show ?case
  proof (cases "dict_pop k1 d")
    case (Inl e)
    then show ?thesis using ne by (simp add: key_match_iff)
  next
    case (Inr d1)
    then show ?thesis using ne Cons.IH [OF notin, of d1] by (simp add: key_match_iff)
  qed
qed

lemma pop_all_filter:
  "pop_all (map fst (filter (\<lambda>(pixel, v). \<not> P pixel) d)) d = Inr (filter (\<lambda>(pixel, v). P pixel) d)"
proof (induction d)
  case Nil
  show ?case by simp
next
  case (Cons e d)
  obtain pixel v where e: "e = (pixel, v)" by (cases e)
  show ?case
  proof (cases "P pixel")
    case True
    then have "pixel \<notin> set (map fst (filter (\<lambda>(pixel, v). \<not> P pixel) d))" by auto
    from pop_all_skip_head [OF this, of v d] Cons.IH True show ?thesis by (simp add: e)
  next
    case False
    then show ?thesis using Cons.IH by (simp add: e key_match_iff)
  qed
qed

lemma clear_pixels_outside_filter:
  assumes "sf_radius sf \<noteq> 0" and "seg_size seg \<noteq> 0"
  shows "clear_pixels_outside sf seg =
     Inr (sf\<lparr>sf_pixels := filter (\<lambda>(pixel, v).
            contains_point seg \<lparr>radius = radius (snd pixel) * seg_radius seg / sf_radius sf,
                                theta = theta (snd pixel)\<rparr> = Inr True) (sf_pixels sf)\<rparr>)"
  unfolding clear_pixels_outside_def collect_outside_filter [OF assms]
  using pop_all_filter [of "\<lambda>pixel. contains_point seg \<lparr>radius = radius (snd pixel) * seg_radius seg / sf_radius sf,
                                theta = theta (snd pixel)\<rparr> = Inr True" "sf_pixels sf"]
  by simp

lemma collect_outside_success:
  "collect_outside sf seg d = Inr ks \<Longrightarrow> d = [] \<or> (sf_radius sf \<noteq> 0 \<and> seg_size seg \<noteq> 0)"
  by (cases d) (auto simp: contains_point_def Let_def split: if_splits sum.splits)

lemma clear_pixels_outside_success:
  assumes "clear_pixels_outside sf seg = Inr sf'"
  shows "sf' = sf\<lparr>sf_pixels := filter (\<lambda>(pixel, v).
            contains_point seg \<lparr>radius = radius (snd pixel) * seg_radius seg / sf_radius sf,
                                theta = theta (snd pixel)\<rparr> = Inr True) (sf_pixels sf)\<rparr>"
proof -
  from assms obtain ks where ks: "collect_outside sf seg (sf_pixels sf) = Inr ks"
    by (auto simp: clear_pixels_outside_def split: sum.splits)
  from collect_outside_success [OF ks] show ?thesis
  proof
    assume "sf_pixels sf = []"
    with assms show ?thesis by (simp add: clear_pixels_outside_def)
  next
    assume "sf_radius sf \<noteq> 0 \<and> seg_size seg \<noteq> 0"
    then show ?thesis using clear_pixels_outside_filter [of sf seg] assms by simp
  qed
qed

lemma clear_pixels_outside_again:
  assumes "clear_pixels_outside sf seg = Inr sf'"
  shows "clear_pixels_outside sf' seg = Inr sf'"
proof -
  let ?P = "\<lambda>(pixel, v).
            contains_point seg \<lparr>radius = radius (snd pixel) * seg_radius seg / sf_radius sf,
                                theta = theta (snd pixel)\<rparr> = Inr True"
  have sf': "sf' = sf\<lparr>sf_pixels := filter ?P (sf_pixels sf)\<rparr>"
    by (rule clear_pixels_outside_success [OF assms])
  from assms obtain ks where ks: "collect_outside sf seg (sf_pixels sf) = Inr ks"
    by (auto simp: clear_pixels_outside_def split: sum.splits)
  from collect_outside_success [OF ks] show ?thesis
  proof
    assume "sf_pixels sf = []"
    then show ?thesis by (simp add: sf' clear_pixels_outside_def)
  next
    assume nz: "sf_radius sf \<noteq> 0 \<and> seg_size seg \<noteq> 0"
    then have "sf_radius sf' \<noteq> 0" by (simp add: sf')
    from clear_pixels_outside_filter [OF this, of seg] nz
    show ?thesis by (simp add: sf')
  qed
qed

lemma list_all_filter_self: "list_all P (filter P xs)"
  by (induction xs) auto

lemma list_all_filter_keep: "list_all Q xs \<Longrightarrow> list_all Q (filter P xs)"
  by (induction xs) auto

subsection \<open>The slice counts\<close>

lemma valid_sizes_cases:
  "n \<in> set VALID_SIZES \<Longrightarrow> n = 2 \<or> n = 4 \<or> n = 6 \<or> n = 8 \<or> n = 10 \<or> n = 12"
  by (simp add: VALID_SIZES_def)

lemma index_of_valid:
  "index_of 2 VALID_SIZES = Inr 0" "index_of 4 VALID_SIZES = Inr 1"
  "index_of 6 VALID_SIZES = Inr 2" "index_of 8 VALID_SIZES = Inr 3"
  "index_of 10 VALID_SIZES = Inr 4" "index_of 12 VALID_SIZES = Inr 5"
  by (simp_all add: VALID_SIZES_def)

lemma valid_sizes_nth:
  "VALID_SIZES ! 0 = 2" "VALID_SIZES ! 1 = 4" "VALID_SIZES ! 2 = 6"
  "VALID_SIZES ! 3 = 8" "VALID_SIZES ! 4 = 10" "VALID_SIZES ! 5 = 12"
  by (simp_all add: VALID_SIZES_def)

lemma length_valid_sizes: "length VALID_SIZES = 6"
  by (simp add: VALID_SIZES_def)

lemma valid_sizes_next:
  assumes "n \<in> set VALID_SIZES"
  shows "\<exists>i. index_of n VALID_SIZES = Inr i
       \<and> VALID_SIZES ! nat ((i + 1) mod int (length VALID_SIZES)) \<in> set VALID_SIZES"
proof -
  have m: "(2::int) \<in> set VALID_SIZES" "(4::int) \<in> set VALID_SIZES" "(6::int) \<in> set VALID_SIZES"
    "(8::int) \<in> set VALID_SIZES" "(10::int) \<in> set VALID_SIZES" "(12::int) \<in> set VALID_SIZES"
    by (simp_all add: VALID_SIZES_def)
  from valid_sizes_cases [OF assms] show ?thesis
    by (elim disjE) (simp_all add: index_of_valid length_valid_sizes valid_sizes_nth m)
qed

lemma valid_sizes_nonzero: "n \<in> set VALID_SIZES \<Longrightarrow> n \<noteq> 0"
  unfolding VALID_SIZES_def by auto

subsection \<open>The Tab transition and the invariant of the main loop\<close>

lemma tab_transition:
  assumes "sf_size (snowflake s) \<in> set VALID_SIZES" and "sf_radius (snowflake s) \<noteq> 0"
  shows "\<exists>s'. handle_event s (KEYDOWN K_TAB) = Inr s'
     \<and> sf_size (snowflake s') \<in> set VALID_SIZES
     \<and> seg_size (segment s') = sf_size (snowflake s')
     \<and> sf_radius (snowflake s') = sf_radius (snowflake s)
     \<and> seg_radius (segment s') = seg_radius (segment s)
     \<and> sf_pixels (snowflake s') =
          filter (\<lambda>(pixel, v).
            contains_point (segment s')
              \<lparr>radius = radius (snd pixel) * seg_radius (segment s') / sf_radius (snowflake s'),
               theta = theta (snd pixel)\<rparr> = Inr True) (sf_pixels (snowflake s))"
proof -
  from valid_sizes_next [OF assms(1)] obtain i where
    i: "index_of (sf_size (snowflake s)) VALID_SIZES = Inr i"
    and n: "VALID_SIZES ! nat ((i + 1) mod int (length VALID_SIZES)) \<in> set VALID_SIZES"
    by blast
  let ?n = "VALID_SIZES ! nat ((i + 1) mod int (length VALID_SIZES))"
  let ?sf = "(snowflake s)\<lparr>sf_size := ?n\<rparr>"
  let ?seg = "(segment s)\<lparr>seg_size := ?n\<rparr>"
  have r: "sf_radius ?sf \<noteq> 0" using assms(2) by simp
  have z: "seg_size ?seg \<noteq> 0" using valid_sizes_nonzero [OF n] by simp
  note c = clear_pixels_outside_filter [OF r z]
  have "handle_event s (KEYDOWN K_TAB) =
      Inr (s\<lparr>segment := ?seg, snowflake := ?sf\<lparr>sf_pixels := filter (\<lambda>(pixel, v).
            contains_point ?seg \<lparr>radius = radius (snd pixel) * seg_radius ?seg / sf_radius ?sf,
                                theta = theta (snd pixel)\<rparr> = Inr True) (sf_pixels ?sf)\<rparr>\<rparr>)"
    by (simp add: handle_event_def i Let_def c)
  then show ?thesis using n by simp
qed

lemma handle_event_inv:
  assumes "main_inv s" and "handle_event s ev = Inr s'"
  shows "main_inv s'"
proof (cases ev)
  case QUIT
  then show ?thesis using assms by (auto simp: handle_event_def main_inv_def)
next
  case OTHER_EVENT
  then show ?thesis using assms by (auto simp: handle_event_def main_inv_def)
next
  case (KEYDOWN k)
  show ?thesis
  proof (cases "k = K_TAB")
    case True
    have v: "sf_size (snowflake s) \<in> set VALID_SIZES" using assms(1) by (simp add: main_inv_def)
    have r: "sf_radius (snowflake s) \<noteq> 0"
      using assms(1) by (simp add: main_inv_def SNOWFLAKE_RADIUS_def)
    from tab_transition [OF v r] assms(2) KEYDOWN True
    have "sf_size (snowflake s') \<in> set VALID_SIZES
     \<and> seg_size (segment s') = sf_size (snowflake s')
     \<and> sf_radius (snowflake s') = sf_radius (snowflake s)
     \<and> seg_radius (segment s') = seg_radius (segment s)
     \<and> sf_pixels (snowflake s') =
          filter (\<lambda>(pixel, v).
            contains_point (segment s')
              \<lparr>radius = radius (snd pixel) * seg_radius (segment s') / sf_radius (snowflake s'),
               theta = theta (snd pixel)\<rparr> = Inr True) (sf_pixels (snowflake s))"
      by auto
    then show ?thesis using assms(1) by (simp add: main_inv_def list_all_filter_keep)
  next
    case False
    then show ?thesis using assms KEYDOWN
      by (cases k) (auto simp: handle_event_def main_inv_def clear_pixels_def Let_def)
  qed
qed

lemma handle_events_inv:
  "main_inv s \<Longrightarrow> handle_events s evs = Inr s' \<Longrightarrow> main_inv s'"
proof (induction evs arbitrary: s)
  case Nil
  then show ?case by simp
next
  case (Cons ev evs)
  from Cons.prems(2) obtain s1 where a: "handle_event s ev = Inr s1"
    and b: "handle_events s1 evs = Inr s'"
    by (cases "handle_event s ev") simp_all
  from handle_event_inv [OF Cons.prems(1) a] have "main_inv s1" .
  from Cons.IH [OF this b] show ?case .
qed

lemma dict_setitem_values:
  "list_all (\<lambda>(pixel, v). v = w) d \<Longrightarrow> list_all (\<lambda>(pixel, v). v = w) (dict_setitem k w d)"
  by (induction d) auto

lemma cursor_logic_cases:
  assumes "cursor_logic s inp = Inr s'"
  shows "s' = s \<or> s' = s\<lparr>heap_next := heap_next s + 1\<rparr>
     \<or> (\<exists>p. s' = s\<lparr>heap_next := heap_next s + 1,
                     snowflake := set_pixel (snowflake s) (heap_next s, p) 1\<rparr>)"
proof (cases "MB1 inp")
  case False
  then show ?thesis using assms by (simp add: cursor_logic_def)
next
  case True
  obtain mx my where m: "mouse_pos inp = (mx, my)" by (cases "mouse_pos inp")
  let ?p = "from_rectangular (mx, SCREEN_HEIGHT - my) (seg_origin (segment s))"
  show ?thesis
  proof (cases "contains_point (segment s) ?p")
    case (Inl e)
    then show ?thesis using assms True m by (simp add: cursor_logic_def Let_def)
  next
    case (Inr inside)
    show ?thesis
    proof (cases inside)
      case False
      then show ?thesis using assms True m Inr by (simp add: cursor_logic_def Let_def)
    next
      case t: True
      show ?thesis
      proof (cases "seg_radius (segment s) = 0")
        case True
        then show ?thesis using assms \<open>MB1 inp\<close> m Inr t by (simp add: cursor_logic_def Let_def)
      next
        case False
        then have "s' = s\<lparr>heap_next := heap_next s + 1,
                     snowflake := set_pixel (snowflake s) (heap_next s,
                        ?p\<lparr>radius := radius ?p * (sf_radius (snowflake s) / seg_radius (segment s))\<rparr>) 1\<rparr>"
          using assms \<open>MB1 inp\<close> m Inr t by (simp add: cursor_logic_def Let_def)
        then show ?thesis by blast
      qed
    qed
  qed
qed

lemma cursor_logic_inv:
  assumes "main_inv s" and "cursor_logic s inp = Inr s'"
  shows "main_inv s'"
proof -
  from cursor_logic_cases [OF assms(2)] show ?thesis
  proof (elim disjE exE)
    assume "s' = s" then show ?thesis using assms(1) by simp
  next
    assume "s' = s\<lparr>heap_next := heap_next s + 1\<rparr>"
    then show ?thesis using assms(1) by (simp add: main_inv_def)
  next
    fix p
    assume "s' = s\<lparr>heap_next := heap_next s + 1,
                     snowflake := set_pixel (snowflake s) (heap_next s, p) 1\<rparr>"
    then show ?thesis using assms(1)
      by (simp add: main_inv_def set_pixel_def dict_setitem_values)
  qed
qed

lemma output_logic_inv: "main_inv s \<Longrightarrow> main_inv (output_logic s)"
  by (simp add: output_logic_def main_inv_def rotate_snowflake_def)

lemma frame_inv:
  assumes "main_inv s" and "frame s inp = Inr s'"
  shows "main_inv s'"
proof -
  from assms(2) obtain s1 where a: "handle_events s (events inp) = Inr s1"
    by (cases "handle_events s (events inp)") (simp_all add: frame_def)
  from assms(2) a obtain s2 where b: "cursor_logic s1 inp = Inr s2"
    by (cases "cursor_logic s1 inp") (simp_all add: frame_def)
  from assms(2) a b have c: "s' = output_logic s2" by (simp add: frame_def)
  from handle_events_inv [OF assms(1) a] have "main_inv s1" .
  from cursor_logic_inv [OF this b] have "main_inv s2" .
  then show ?thesis unfolding c by (rule output_logic_inv)
qed

lemma init_state_inv: "main_inv init_state"
  by (simp add: main_inv_def init_state_def new_Snowflake_def DEFAULT_SIZE_def VALID_SIZES_def)

lemma reachable_main_inv: "reachable s \<Longrightarrow> main_inv s"
proof (induction rule: reachable.induct)
  case reachable_init
  show ?case by (rule init_state_inv)
next
  case (reachable_frame s inp s')
  from frame_inv [OF reachable_frame.IH reachable_frame.hyps(3)] show ?case .
qed

subsection \<open>Concrete points\<close>

lemma hypot_axis: "hypot x 0 = \<bar>x\<bar>"
  by (simp add: hypot_def)

lemma float_mod_zero: "float_mod 0 m = 0"
  by (simp add: float_mod_def)

lemma from_rectangular_on_axis:
  "ox < x \<Longrightarrow> from_rectangular (x, oy) (ox, oy) = \<lparr>radius = real_of_int (x - ox), theta = 0\<rparr>"
  by (simp add: from_rectangular_def hypot_axis atan2_def float_mod_zero)

lemma contains_point_axis:
  "0 < seg_size seg \<Longrightarrow> 0 \<le> r \<Longrightarrow> r \<le> seg_radius seg \<Longrightarrow>
   contains_point seg \<lparr>radius = r, theta = 0\<rparr> = Inr True"
proof -
  assume n: "0 < seg_size seg" and r: "0 \<le> r" "r \<le> seg_radius seg"
  have "0 < 2 * pi / real_of_int (seg_size seg)" using n by simp
  then have "\<not> 2 * pi / real_of_int (seg_size seg) / 2 < 0" by simp
  then show ?thesis using n r
    by (simp add: contains_point_def Let_def RADIANS_IN_CIRCLE_def)
qed

lemma contains_point_third:
  "contains_point \<lparr>seg_radius = R, seg_size = 4, seg_origin = c, seg_centered_angle = a\<rparr>
     \<lparr>radius = r, theta = pi / 3\<rparr> = Inr False"
proof -
  have "pi / 3 < 2 * pi - 2 * pi / 4 / 2" "pi / 3 > 2 * pi / 4 / 2"
    using pi_gt_zero by simp_all
  then show ?thesis
    by (simp add: contains_point_def Let_def RADIANS_IN_CIRCLE_def)
qed

lemma frame_click_example:
  "frame init_state \<lparr>events = [KEYDOWN K_r], MB1 = True, mouse_pos = (300, 325)\<rparr> =
     Inr \<lparr>running = True, rotate_on = False,
          segment = \<lparr>seg_radius = 200, seg_size = 6, seg_origin = (210, 325), seg_centered_angle = 0\<rparr>,
          snowflake = \<lparr>sf_radius = 150, sf_size = 6, sf_origin = (600, 325), sf_mirror = True,
                       sf_pixels = [((0, \<lparr>radius = 135 / 2, theta = 0\<rparr>), 1)],
                       sf_current_angle = 0\<rparr>,
          heap_next = 1\<rparr>"
proof -
  let ?seg = "\<lparr>seg_radius = 200, seg_size = 6, seg_origin = (210, 325), seg_centered_angle = 0\<rparr>"
  have p: "from_rectangular (300, 325) (210, 325) = \<lparr>radius = 90, theta = 0\<rparr>"
    using from_rectangular_on_axis [of 210 300 325] by simp
  have c: "contains_point ?seg \<lparr>radius = 90, theta = 0\<rparr> = Inr True"
    by (rule contains_point_axis) simp_all
  show ?thesis
    by (simp add: frame_def init_state_def handle_event_def cursor_logic_def output_logic_def
        new_Snowflake_def set_pixel_def Let_def SCREEN_HEIGHT_def p c
        SNOWFLAKE_SEGMENT_RADIUS_def SNOWFLAKE_SEGMENT_POSITION_def SNOWFLAKE_RADIUS_def
        SNOWFLAKE_POSITION_def DEFAULT_SIZE_def DEFAULT_MIRROR_def)
qed

subsection \<open>clear_pixels_outside\<close>

text \<open>
  C5. For a snowflake of non-zero radius and a segment of non-zero size (where the
  rescaling and the containment test are defined; otherwise the source raises
  \<^verbatim>\<open>ZeroDivisionError\<close> on the first stored pixel), \<^verbatim>\<open>clear_pixels_outside\<close> returns the
  snowflake with its dictionary filtered: an entry stays, key and value unchanged and in
  its place, exactly when its radius rescaled by \<open>segment.radius / snowflake.radius\<close>
  together with its unchanged theta passes \<^verbatim>\<open>contains_point\<close>; nothing else of the
  snowflake changes. The Tab transition, from any state whose size is a valid one and
  whose snowflake radius is not zero (every state of the main loop is such a state),
  succeeds, gives segment and snowflake the same valid size, keeps exactly the entries
  inside the new segment, and so leaves only entries that rescale to a point inside it.
\<close>

theorem clear_pixels_outside_exact:
  assumes "sf_radius sf \<noteq> 0" and "seg_size seg \<noteq> 0"
    and "sf_size (snowflake s) \<in> set VALID_SIZES" and "sf_radius (snowflake s) \<noteq> 0"
  shows "clear_pixels_outside sf seg =
     Inr (sf\<lparr>sf_pixels := filter (\<lambda>(pixel, v).
            contains_point seg \<lparr>radius = radius (snd pixel) * seg_radius seg / sf_radius sf,
                                theta = theta (snd pixel)\<rparr> = Inr True) (sf_pixels sf)\<rparr>)
   \<and> (\<exists>s'. handle_event s (KEYDOWN K_TAB) = Inr s'
         \<and> sf_size (snowflake s') \<in> set VALID_SIZES
         \<and> seg_size (segment s') = sf_size (snowflake s')
         \<and> sf_pixels (snowflake s') =
              filter (\<lambda>(pixel, v).
                contains_point (segment s')
                  \<lparr>radius = radius (snd pixel) * seg_radius (segment s') / sf_radius (snowflake s'),
                   theta = theta (snd pixel)\<rparr> = Inr True) (sf_pixels (snowflake s))
         \<and> list_all (\<lambda>(pixel, v).
                contains_point (segment s')
                  \<lparr>radius = radius (snd pixel) * seg_radius (segment s') / sf_radius (snowflake s'),
                   theta = theta (snd pixel)\<rparr> = Inr True) (sf_pixels (snowflake s')))"
proof -
  from tab_transition [OF assms(3,4)] obtain s' where
    t: "handle_event s (KEYDOWN K_TAB) = Inr s'"
       "sf_size (snowflake s') \<in> set VALID_SIZES"
       "seg_size (segment s') = sf_size (snowflake s')"
       "sf_pixels (snowflake s') =
              filter (\<lambda>(pixel, v).
                contains_point (segment s')
                  \<lparr>radius = radius (snd pixel) * seg_radius (segment s') / sf_radius (snowflake s'),
                   theta = theta (snd pixel)\<rparr> = Inr True) (sf_pixels (snowflake s))"
    by blast
  have "list_all (\<lambda>(pixel, v).
                contains_point (segment s')
                  \<lparr>radius = radius (snd pixel) * seg_radius (segment s') / sf_radius (snowflake s'),
                   theta = theta (snd pixel)\<rparr> = Inr True) (sf_pixels (snowflake s'))"
    by (subst t(4)) (rule list_all_filter_self)
  with t clear_pixels_outside_filter [OF assms(1,2)] show ?thesis by blast
qed

theorem clear_pixels_outside_exact_witness:
  "clear_pixels_outside
     \<lparr>sf_radius = 150, sf_size = 4, sf_origin = (600, 325), sf_mirror = True,
      sf_pixels = [((0, \<lparr>radius = 75, theta = 0\<rparr>), 1), ((1, \<lparr>radius = 75, theta = pi / 3\<rparr>), 1)],
      sf_current_angle = 0\<rparr>
     \<lparr>seg_radius = 200, seg_size = 4, seg_origin = (210, 325), seg_centered_angle = 0\<rparr>
   = Inr \<lparr>sf_radius = 150, sf_size = 4, sf_origin = (600, 325), sf_mirror = True,
      sf_pixels = [((0, \<lparr>radius = 75, theta = 0\<rparr>), 1)], sf_current_angle = 0\<rparr>
   \<and> (\<exists>s'. handle_event
          \<lparr>running = True, rotate_on = True,
           segment = \<lparr>seg_radius = 200, seg_size = 2, seg_origin = (210, 325), seg_centered_angle = 0\<rparr>,
           snowflake = \<lparr>sf_radius = 150, sf_size = 2, sf_origin = (600, 325), sf_mirror = True,
              sf_pixels = [((0, \<lparr>radius = 75, theta = 0\<rparr>), 1),
                           ((1, \<lparr>radius = 75, theta = pi / 3\<rparr>), 1)],
              sf_current_angle = 0\<rparr>,
           heap_next = 2\<rparr> (KEYDOWN K_TAB) = Inr s'
        \<and> seg_size (segment s') = 4 \<and> sf_size (snowflake s') = 4
        \<and> sf_pixels (snowflake s') = [((0, \<lparr>radius = 75, theta = 0\<rparr>), 1)])"
proof -
  let ?px = "[((0::nat, \<lparr>radius = 75, theta = 0\<rparr>), 1::int), ((1, \<lparr>radius = 75, theta = pi / 3\<rparr>), 1)]"
  let ?sf = "\<lparr>sf_radius = 150, sf_size = 4, sf_origin = (600, 325), sf_mirror = True,
      sf_pixels = ?px, sf_current_angle = 0\<rparr>"
  let ?seg = "\<lparr>seg_radius = 200, seg_size = 4, seg_origin = (210, 325), seg_centered_angle = 0\<rparr>"
  let ?s = "\<lparr>running = True, rotate_on = True,
           segment = \<lparr>seg_radius = 200, seg_size = 2, seg_origin = (210, 325), seg_centered_angle = 0\<rparr>,
           snowflake = \<lparr>sf_radius = 150, sf_size = 2, sf_origin = (600, 325), sf_mirror = True,
              sf_pixels = ?px, sf_current_angle = 0\<rparr>,
           heap_next = 2\<rparr>"
  have h1: "sf_radius ?sf \<noteq> 0" by simp
  have h2: "seg_size ?seg \<noteq> 0" by simp
  have h3: "sf_size (snowflake ?s) \<in> set VALID_SIZES" by (simp add: VALID_SIZES_def)
  have h4: "sf_radius (snowflake ?s) \<noteq> 0" by simp
  have c0: "contains_point ?seg \<lparr>radius = 100, theta = 0\<rparr> = Inr True"
    by (rule contains_point_axis) simp_all
  note c1 = contains_point_third [of 200 "(210, 325)" 0 100]
  note t = clear_pixels_outside_exact [OF h1 h2 h3 h4]
  from t have a: "clear_pixels_outside ?sf ?seg
      = Inr \<lparr>sf_radius = 150, sf_size = 4, sf_origin = (600, 325), sf_mirror = True,
         sf_pixels = [((0, \<lparr>radius = 75, theta = 0\<rparr>), 1)], sf_current_angle = 0\<rparr>"
    by (simp add: c0 c1)
  from t obtain s' where s': "handle_event ?s (KEYDOWN K_TAB) = Inr s'"
    "seg_size (segment s') = sf_size (snowflake s')"
    "sf_pixels (snowflake s') =
              filter (\<lambda>(pixel, v).
                contains_point (segment s')
                  \<lparr>radius = radius (snd pixel) * seg_radius (segment s') / sf_radius (snowflake s'),
                   theta = theta (snd pixel)\<rparr> = Inr True) ?px"
    by auto
  have e: "handle_event ?s (KEYDOWN K_TAB) =
      Inr (?s\<lparr>segment := ?seg, snowflake := ?sf\<lparr>sf_pixels := [((0, \<lparr>radius = 75, theta = 0\<rparr>), 1)]\<rparr>\<rparr>)"
    using a valid_sizes_nth(2)
    by (simp add: handle_event_def Let_def index_of_valid length_valid_sizes)
  from e s'(1) have "s' = ?s\<lparr>segment := ?seg, snowflake := ?sf\<lparr>sf_pixels := [((0, \<lparr>radius = 75, theta = 0\<rparr>), 1)]\<rparr>\<rparr>"
    by simp
  then have "seg_size (segment s') = 4 \<and> sf_size (snowflake s') = 4
        \<and> sf_pixels (snowflake s') = [((0, \<lparr>radius = 75, theta = 0\<rparr>), 1)]" by simp
  with s'(1) a show ?thesis by blast
qed

text \<open>
  C6. Applying \<^verbatim>\<open>clear_pixels_outside\<close> a second time changes nothing: running it twice
  (the second run on the result of the first, an exception of the first ending both)
  gives what running it once gives, and where it returns (non-zero radius and size),
  the second run returns the very snowflake the first one returned.
\<close>

theorem clear_pixels_outside_idempotent:
  "(case clear_pixels_outside sf seg of
      Inl e \<Rightarrow> Inl e
    | Inr sf' \<Rightarrow> clear_pixels_outside sf' seg) = clear_pixels_outside sf seg
   \<and> (sf_radius sf \<noteq> 0 \<and> seg_size seg \<noteq> 0 \<longrightarrow>
        (\<exists>sf'. clear_pixels_outside sf seg = Inr sf' \<and> clear_pixels_outside sf' seg = Inr sf'))"
proof -
  have a: "(case clear_pixels_outside sf seg of
      Inl e \<Rightarrow> Inl e
    | Inr sf' \<Rightarrow> clear_pixels_outside sf' seg) = clear_pixels_outside sf seg"
  proof (cases "clear_pixels_outside sf seg")
    case (Inl e)
    then show ?thesis by simp
  next
    case (Inr sf')
    then show ?thesis using clear_pixels_outside_again [OF Inr] by simp
  qed
  have b: "sf_radius sf \<noteq> 0 \<and> seg_size seg \<noteq> 0 \<longrightarrow>
        (\<exists>sf'. clear_pixels_outside sf seg = Inr sf' \<and> clear_pixels_outside sf' seg = Inr sf')"
  proof
    assume "sf_radius sf \<noteq> 0 \<and> seg_size seg \<noteq> 0"
    then obtain sf' where s: "clear_pixels_outside sf seg = Inr sf'"
      using clear_pixels_outside_filter [of sf seg] by blast
    with clear_pixels_outside_again [OF s]
    show "\<exists>sf'. clear_pixels_outside sf seg = Inr sf' \<and> clear_pixels_outside sf' seg = Inr sf'"
      by blast
  qed
  from a b show ?thesis by blast
qed

theorem clear_pixels_outside_idempotent_witness:
  "clear_pixels_outside
     \<lparr>sf_radius = 150, sf_size = 4, sf_origin = (600, 325), sf_mirror = True,
      sf_pixels = [((0, \<lparr>radius = 75, theta = 0\<rparr>), 1), ((1, \<lparr>radius = 75, theta = pi / 3\<rparr>), 1)],
      sf_current_angle = 0\<rparr>
     \<lparr>seg_radius = 200, seg_size = 4, seg_origin = (210, 325), seg_centered_angle = 0\<rparr>
   = Inr \<lparr>sf_radius = 150, sf_size = 4, sf_origin = (600, 325), sf_mirror = True,
      sf_pixels = [((0, \<lparr>radius = 75, theta = 0\<rparr>), 1)], sf_current_angle = 0\<rparr>
   \<and> clear_pixels_outside
     \<lparr>sf_radius = 150, sf_size = 4, sf_origin = (600, 325), sf_mirror = True,
      sf_pixels = [((0, \<lparr>radius = 75, theta = 0\<rparr>), 1)], sf_current_angle = 0\<rparr>
     \<lparr>seg_radius = 200, seg_size = 4, seg_origin = (210, 325), seg_centered_angle = 0\<rparr>
   = Inr \<lparr>sf_radius = 150, sf_size = 4, sf_origin = (600, 325), sf_mirror = True,
      sf_pixels = [((0, \<lparr>radius = 75, theta = 0\<rparr>), 1)], sf_current_angle = 0\<rparr>"
proof -
  let ?px = "[((0::nat, \<lparr>radius = 75, theta = 0\<rparr>), 1::int), ((1, \<lparr>radius = 75, theta = pi / 3\<rparr>), 1)]"
  let ?sf = "\<lparr>sf_radius = 150, sf_size = 4, sf_origin = (600, 325), sf_mirror = True,
      sf_pixels = ?px, sf_current_angle = 0\<rparr>"
  let ?seg = "\<lparr>seg_radius = 200, seg_size = 4, seg_origin = (210, 325), seg_centered_angle = 0\<rparr>"
  have c0: "contains_point ?seg \<lparr>radius = 100, theta = 0\<rparr> = Inr True"
    by (rule contains_point_axis) simp_all
  note c1 = contains_point_third [of 200 "(210, 325)" 0 100]
  have a: "clear_pixels_outside ?sf ?seg
      = Inr \<lparr>sf_radius = 150, sf_size = 4, sf_origin = (600, 325), sf_mirror = True,
         sf_pixels = [((0, \<lparr>radius = 75, theta = 0\<rparr>), 1)], sf_current_angle = 0\<rparr>"
    by (simp add: clear_pixels_outside_def key_match_iff c0 c1)
  have "sf_radius ?sf \<noteq> 0 \<and> seg_size ?seg \<noteq> 0" by simp
  with clear_pixels_outside_idempotent [where sf = ?sf and seg = ?seg] a show ?thesis by auto
qed

subsection \<open>Only the value 1 is ever stored\<close>

lemma draw_pixels_items_colors:
  assumes "sf_size sf \<noteq> 0"
  shows "list_all (\<lambda>(pixel, v). v = 1) d \<Longrightarrow>
     \<exists>cmds. draw_pixels_items sf d = Inr cmds
        \<and> list_all (\<lambda>c. cmd_color c = SNOWFLAKE_COLOR) cmds"
proof (induction d)
  case Nil
  show ?case by simp
next
  case (Cons e d)
  obtain pixel v where e: "e = (pixel, v)" by (cases e)
  from Cons.prems have v: "v = 1" and rest: "list_all (\<lambda>(pixel, v). v = 1) d"
    by (simp_all add: e)
  from Cons.IH [OF rest] obtain cmds where
    c: "draw_pixels_items sf d = Inr cmds" "list_all (\<lambda>c. cmd_color c = SNOWFLAKE_COLOR) cmds"
    by blast
  show ?case using assms c
    by (auto simp: e v Let_def pixel_color_def list_all_iff)
qed

lemma draw_segment_items_colors:
  assumes "sf_radius sf \<noteq> 0"
  shows "list_all (\<lambda>(pixel, v). v = 1) d \<Longrightarrow>
     \<exists>cmds. draw_segment_items sf seg d = Inr cmds
        \<and> list_all (\<lambda>c. cmd_color c = SNOWFLAKE_COLOR) cmds"
proof (induction d)
  case Nil
  show ?case by simp
next
  case (Cons e d)
  obtain pixel v where e: "e = (pixel, v)" by (cases e)
  from Cons.prems have v: "v = 1" and rest: "list_all (\<lambda>(pixel, v). v = 1) d"
    by (simp_all add: e)
  from Cons.IH [OF rest] obtain cmds where
    c: "draw_segment_items sf seg d = Inr cmds" "list_all (\<lambda>c. cmd_color c = SNOWFLAKE_COLOR) cmds"
    by blast
  show ?case using assms c
    by (simp add: e v Let_def pixel_color_def)
qed

text \<open>
  C10. In every state the main loop reaches, every value in the pixel dictionary is 1,
  so \<^verbatim>\<open>draw_pixels\<close> and \<^verbatim>\<open>draw_segment\<close> run without error and every circle they draw
  has the snowflake colour, which is not the background colour: the erasing branch is
  never taken.
\<close>

theorem pixel_values_always_one:
  assumes "reachable s"
  shows "list_all (\<lambda>(pixel, v). v = 1) (sf_pixels (snowflake s))
   \<and> (\<exists>cmds. draw_pixels (snowflake s) = Inr cmds
         \<and> list_all (\<lambda>c. cmd_color c = SNOWFLAKE_COLOR) cmds)
   \<and> (\<exists>cmds. draw_segment (snowflake s) (segment s) = Inr cmds
         \<and> list_all (\<lambda>c. cmd_color c = SNOWFLAKE_COLOR) cmds)
   \<and> SNOWFLAKE_COLOR \<noteq> BACKGROUND_COLOR"
proof -
  from reachable_main_inv [OF assms] have inv: "main_inv s" .
  then have one: "list_all (\<lambda>(pixel, v). v = 1) (sf_pixels (snowflake s))"
    by (simp add: main_inv_def)
  from inv have "sf_size (snowflake s) \<in> set VALID_SIZES" by (simp add: main_inv_def)
  then have nz: "sf_size (snowflake s) \<noteq> 0" by (rule valid_sizes_nonzero)
  from inv have r: "sf_radius (snowflake s) \<noteq> 0"
    by (simp add: main_inv_def SNOWFLAKE_RADIUS_def)
  have two: "\<exists>cmds. draw_pixels (snowflake s) = Inr cmds
         \<and> list_all (\<lambda>c. cmd_color c = SNOWFLAKE_COLOR) cmds"
    unfolding draw_pixels_def by (rule draw_pixels_items_colors [OF nz one])
  have three: "\<exists>cmds. draw_segment (snowflake s) (segment s) = Inr cmds
         \<and> list_all (\<lambda>c. cmd_color c = SNOWFLAKE_COLOR) cmds"
    unfolding draw_segment_def by (rule draw_segment_items_colors [OF r one])
  have four: "SNOWFLAKE_COLOR \<noteq> BACKGROUND_COLOR"
    by (simp add: SNOWFLAKE_COLOR_def BACKGROUND_COLOR_def)
  from one two three four show ?thesis by blast
qed

theorem pixel_values_always_one_witness:
  "reachable \<lparr>running = True, rotate_on = False,
          segment = \<lparr>seg_radius = 200, seg_size = 6, seg_origin = (210, 325), seg_centered_angle = 0\<rparr>,
          snowflake = \<lparr>sf_radius = 150, sf_size = 6, sf_origin = (600, 325), sf_mirror = True,
                       sf_pixels = [((0, \<lparr>radius = 135 / 2, theta = 0\<rparr>), 1)],
                       sf_current_angle = 0\<rparr>,
          heap_next = 1\<rparr>
   \<and> list_all (\<lambda>(pixel, v). v = 1) [((0::nat, \<lparr>radius = 135 / 2, theta = 0\<rparr>), 1::int)]
   \<and> (\<exists>cmds. draw_pixels \<lparr>sf_radius = 150, sf_size = 6, sf_origin = (600, 325), sf_mirror = True,
                       sf_pixels = [((0, \<lparr>radius = 135 / 2, theta = 0\<rparr>), 1)],
                       sf_current_angle = 0\<rparr> = Inr cmds
         \<and> length cmds = 6 \<and> list_all (\<lambda>c. cmd_color c = SNOWFLAKE_COLOR) cmds)"
proof -
  let ?s = "\<lparr>running = True, rotate_on = False,
          segment = \<lparr>seg_radius = 200, seg_size = 6, seg_origin = (210, 325), seg_centered_angle = 0\<rparr>,
          snowflake = \<lparr>sf_radius = 150, sf_size = 6, sf_origin = (600, 325), sf_mirror = True,
                       sf_pixels = [((0, \<lparr>radius = 135 / 2, theta = 0\<rparr>), 1)],
                       sf_current_angle = 0\<rparr>,
          heap_next = 1\<rparr>"
  have run: "running init_state" by (simp add: init_state_def)
  have r: "reachable ?s"
    by (rule reachable_frame [OF reachable_init run frame_click_example])
  from pixel_values_always_one [OF r] obtain cmds where
    c: "draw_pixels (snowflake ?s) = Inr cmds" "list_all (\<lambda>c. cmd_color c = SNOWFLAKE_COLOR) cmds"
    by blast
  have "sf_size (snowflake ?s) \<noteq> 0" by simp
  from draw_pixels_items_slots [OF this, of "sf_pixels (snowflake ?s)"] c(1)
  have "length cmds = 6" by (auto simp: draw_pixels_def py_range_def)
  with c r show ?thesis by simp
qed

subsection \<open>Polar and back\<close>












subsection \<open>contains_point against the specification\<close>

lemma arc_about_zero:
  fixes t h :: real
  assumes "0 \<le> t" and "t < 2 * pi" and "0 < h" and "h \<le> pi"
  shows "(\<exists>k::int. - h \<le> t + 2 * pi * real_of_int k \<and> t + 2 * pi * real_of_int k \<le> h)
     \<longleftrightarrow> (t \<le> h \<or> 2 * pi - h \<le> t)"
proof
  assume "\<exists>k::int. - h \<le> t + 2 * pi * real_of_int k \<and> t + 2 * pi * real_of_int k \<le> h"
  then obtain k :: int where k: "- h \<le> t + 2 * pi * real_of_int k"
    "t + 2 * pi * real_of_int k \<le> h" by blast
  consider "k \<le> - 2" | "k = - 1" | "k = 0" | "1 \<le> k" by linarith
  then show "t \<le> h \<or> 2 * pi - h \<le> t"
  proof cases
    case 1
    then have "real_of_int k \<le> - 2" by linarith
    then have "2 * pi * real_of_int k \<le> 2 * pi * (- 2)"
      by (intro mult_left_mono) simp_all
    with k(1) assms have False by simp
    then show ?thesis ..
  next
    case 2
    with k(1) show ?thesis by simp
  next
    case 3
    with k(2) show ?thesis by simp
  next
    case 4
    then have "1 \<le> real_of_int k" by linarith
    then have "2 * pi * 1 \<le> 2 * pi * real_of_int k"
      by (intro mult_left_mono) simp_all
    with k(2) assms have False by simp
    then show ?thesis ..
  qed
next
  assume "t \<le> h \<or> 2 * pi - h \<le> t"
  then show "\<exists>k::int. - h \<le> t + 2 * pi * real_of_int k \<and> t + 2 * pi * real_of_int k \<le> h"
  proof
    assume "t \<le> h"
    with assms have "- h \<le> t + 2 * pi * real_of_int 0 \<and> t + 2 * pi * real_of_int 0 \<le> h"
      by simp
    then show ?thesis by blast
  next
    assume "2 * pi - h \<le> t"
    with assms have "- h \<le> t + 2 * pi * real_of_int (- 1) \<and> t + 2 * pi * real_of_int (- 1) \<le> h"
      by simp
    then show ?thesis by blast
  qed
qed

lemma contains_point_eq:
  assumes "seg_size seg \<noteq> 0"
  shows "contains_point seg p =
     Inr (\<not> (theta p < 2 * pi - pi / real_of_int (seg_size seg)
              \<and> theta p > pi / real_of_int (seg_size seg))
          \<and> \<not> (radius p > seg_radius seg \<or> radius p < 0))"
proof -
  define b where "b = 2 * pi - pi / real_of_int (seg_size seg)"
  define e where "e = pi / real_of_int (seg_size seg)"
  have e: "RADIANS_IN_CIRCLE / real_of_int (seg_size seg) / 2 = e"
    by (simp add: e_def RADIANS_IN_CIRCLE_def)
  have b: "RADIANS_IN_CIRCLE - e = b"
    by (simp add: b_def e_def RADIANS_IN_CIRCLE_def)
  have "contains_point seg p =
     Inr (\<not> (theta p < b \<and> theta p > e) \<and> \<not> (radius p > seg_radius seg \<or> radius p < 0))"
    unfolding contains_point_def Let_def e b using assms by simp
  then show ?thesis unfolding b_def e_def .
qed

text \<open>
  For a segment centred on angle 0, a size of at least 1 and theta in \<open>[0, 2\<pi>)\<close>, the
  source's test is the specification's.
\<close>

lemma contains_point_centered_zero:
  assumes "seg_centered_angle seg = 0" and "1 \<le> seg_size seg"
    and "0 \<le> theta p" and "theta p < 2 * pi"
  shows "contains_point seg p = Inr (contains_spec seg p)"
proof -
  define h where "h = pi / real_of_int (seg_size seg)"
  have n: "1 \<le> real_of_int (seg_size seg)" using assms(2) by simp
  have h: "0 < h" unfolding h_def using n by simp
  have "pi / real_of_int (seg_size seg) \<le> pi / 1" using n by (intro divide_left_mono) simp_all
  then have h': "h \<le> pi" by (simp add: h_def)
  note arc = arc_about_zero [OF assms(3) assms(4) h h']
  have nz: "seg_size seg \<noteq> 0" using assms(2) by simp
  have c: "contains_point seg p =
     Inr (\<not> (theta p < 2 * pi - h \<and> theta p > h) \<and> \<not> (radius p > seg_radius seg \<or> radius p < 0))"
    unfolding h_def by (rule contains_point_eq [OF nz])
  have s: "contains_spec seg p =
     (0 \<le> radius p \<and> radius p \<le> seg_radius seg
      \<and> (\<exists>k::int. - h \<le> theta p + 2 * pi * real_of_int k \<and> theta p + 2 * pi * real_of_int k \<le> h))"
    unfolding contains_spec_def Let_def assms(1) h_def by simp
  show ?thesis unfolding c s arc by auto
qed

text \<open>
  C1 fails on the code: \<^verbatim>\<open>contains_point\<close> never reads \<^verbatim>\<open>centered_angle\<close>. A segment of
  size 6 centred on angle \<open>\<pi>\<close> spans \<open>[5\<pi>/6, 7\<pi>/6]\<close>, and the point at angle \<open>0\<close>, radius
  \<open>1/2\<close> lies opposite to it; the source accepts the point.
\<close>

theorem contains_point_ignores_centered_angle:
  "contains_point \<lparr>seg_radius = 1, seg_size = 6, seg_origin = (0, 0), seg_centered_angle = pi\<rparr>
     \<lparr>radius = 1 / 2, theta = 0\<rparr> = Inr True
   \<and> \<not> contains_spec \<lparr>seg_radius = 1, seg_size = 6, seg_origin = (0, 0), seg_centered_angle = pi\<rparr>
     \<lparr>radius = 1 / 2, theta = 0\<rparr>"
proof -
  have a: "contains_point \<lparr>seg_radius = 1, seg_size = 6, seg_origin = (0, 0), seg_centered_angle = pi\<rparr>
     \<lparr>radius = 1 / 2, theta = 0\<rparr> = Inr True"
    by (simp add: contains_point_def Let_def RADIANS_IN_CIRCLE_def)
  have b: "\<not> (\<exists>k::int. pi - pi / 6 \<le> 0 + 2 * pi * real_of_int k
               \<and> 0 + 2 * pi * real_of_int k \<le> pi + pi / 6)"
  proof
    assume "\<exists>k::int. pi - pi / 6 \<le> 0 + 2 * pi * real_of_int k
               \<and> 0 + 2 * pi * real_of_int k \<le> pi + pi / 6"
    then obtain k :: int where k: "pi - pi / 6 \<le> 2 * pi * real_of_int k"
      "2 * pi * real_of_int k \<le> pi + pi / 6" by auto
    from k(1) pi_gt_zero have "5 \<le> 12 * real_of_int k" by simp
    then have lo: "5 \<le> 12 * k" by linarith
    from k(2) pi_gt_zero have "12 * real_of_int k \<le> 7" by simp
    then have hi: "12 * k \<le> 7" by linarith
    from lo hi show False by presburger
  qed
  from a b show ?thesis by (simp add: contains_spec_def)
qed

subsection \<open>Equality of PolarPoint keys\<close>

lemma frame_click_again:
  "frame \<lparr>running = True, rotate_on = False,
          segment = \<lparr>seg_radius = 200, seg_size = 6, seg_origin = (210, 325), seg_centered_angle = 0\<rparr>,
          snowflake = \<lparr>sf_radius = 150, sf_size = 6, sf_origin = (600, 325), sf_mirror = True,
                       sf_pixels = [((0, \<lparr>radius = 135 / 2, theta = 0\<rparr>), 1)],
                       sf_current_angle = 0\<rparr>,
          heap_next = 1\<rparr>
     \<lparr>events = [], MB1 = True, mouse_pos = (300, 325)\<rparr> =
     Inr \<lparr>running = True, rotate_on = False,
          segment = \<lparr>seg_radius = 200, seg_size = 6, seg_origin = (210, 325), seg_centered_angle = 0\<rparr>,
          snowflake = \<lparr>sf_radius = 150, sf_size = 6, sf_origin = (600, 325), sf_mirror = True,
                       sf_pixels = [((0, \<lparr>radius = 135 / 2, theta = 0\<rparr>), 1),
                                    ((1, \<lparr>radius = 135 / 2, theta = 0\<rparr>), 1)],
                       sf_current_angle = 0\<rparr>,
          heap_next = 2\<rparr>"
proof -
  let ?seg = "\<lparr>seg_radius = 200, seg_size = 6, seg_origin = (210, 325), seg_centered_angle = 0\<rparr>"
  have p: "from_rectangular (300, 325) (210, 325) = \<lparr>radius = 90, theta = 0\<rparr>"
    using from_rectangular_on_axis [of 210 300 325] by simp
  have c: "contains_point ?seg \<lparr>radius = 90, theta = 0\<rparr> = Inr True"
    by (rule contains_point_axis) simp_all
  show ?thesis
    by (simp add: frame_def cursor_logic_def output_logic_def set_pixel_def Let_def
        SCREEN_HEIGHT_def p c key_match_iff)
qed

text \<open>
  C2 fails on the code: two PolarPoint objects with the same theta and radius hash alike
  and are not equal, so \<^verbatim>\<open>set_pixel\<close> with the second adds an entry instead of
  overwriting. In the main loop, two frames with the left button held at the same
  position store the same point twice.
\<close>

theorem set_pixel_equal_fields_duplicates:
  "py_hash (0, \<lparr>radius = 135 / 2, theta = 0\<rparr>) = py_hash (1, \<lparr>radius = 135 / 2, theta = 0\<rparr>)
   \<and> \<not> py_eq (0, \<lparr>radius = 135 / 2, theta = 0\<rparr>) (1, \<lparr>radius = 135 / 2, theta = 0\<rparr>)
   \<and> sf_pixels (set_pixel (set_pixel (new_Snowflake 150 6 (600, 325) True)
         (0, \<lparr>radius = 135 / 2, theta = 0\<rparr>) 1) (1, \<lparr>radius = 135 / 2, theta = 0\<rparr>) 1)
       = [((0, \<lparr>radius = 135 / 2, theta = 0\<rparr>), 1), ((1, \<lparr>radius = 135 / 2, theta = 0\<rparr>), 1)]
   \<and> (\<exists>s1 s2.
         frame init_state \<lparr>events = [KEYDOWN K_r], MB1 = True, mouse_pos = (300, 325)\<rparr> = Inr s1
         \<and> frame s1 \<lparr>events = [], MB1 = True, mouse_pos = (300, 325)\<rparr> = Inr s2
         \<and> sf_pixels (snowflake s2)
             = [((0, \<lparr>radius = 135 / 2, theta = 0\<rparr>), 1), ((1, \<lparr>radius = 135 / 2, theta = 0\<rparr>), 1)])"
proof -
  have a: "py_hash (0, \<lparr>radius = 135 / 2, theta = 0\<rparr>) = py_hash (1, \<lparr>radius = 135 / 2, theta = 0\<rparr>)"
    by (simp add: py_hash_def)
  have b: "\<not> py_eq (0, \<lparr>radius = 135 / 2, theta = 0\<rparr>) (1, \<lparr>radius = 135 / 2, theta = 0\<rparr>)"
    by (simp add: py_eq_def)
  have c: "sf_pixels (set_pixel (set_pixel (new_Snowflake 150 6 (600, 325) True)
         (0, \<lparr>radius = 135 / 2, theta = 0\<rparr>) 1) (1, \<lparr>radius = 135 / 2, theta = 0\<rparr>) 1)
       = [((0, \<lparr>radius = 135 / 2, theta = 0\<rparr>), 1), ((1, \<lparr>radius = 135 / 2, theta = 0\<rparr>), 1)]"
    by (simp add: set_pixel_def new_Snowflake_def key_match_def py_eq_def)
  have d: "\<exists>s1 s2.
         frame init_state \<lparr>events = [KEYDOWN K_r], MB1 = True, mouse_pos = (300, 325)\<rparr> = Inr s1
         \<and> frame s1 \<lparr>events = [], MB1 = True, mouse_pos = (300, 325)\<rparr> = Inr s2
         \<and> sf_pixels (snowflake s2)
             = [((0, \<lparr>radius = 135 / 2, theta = 0\<rparr>), 1), ((1, \<lparr>radius = 135 / 2, theta = 0\<rparr>), 1)]"
  proof (intro exI conjI)
    show "frame init_state \<lparr>events = [KEYDOWN K_r], MB1 = True, mouse_pos = (300, 325)\<rparr> =
      Inr \<lparr>running = True, rotate_on = False,
          segment = \<lparr>seg_radius = 200, seg_size = 6, seg_origin = (210, 325), seg_centered_angle = 0\<rparr>,
          snowflake = \<lparr>sf_radius = 150, sf_size = 6, sf_origin = (600, 325), sf_mirror = True,
                       sf_pixels = [((0, \<lparr>radius = 135 / 2, theta = 0\<rparr>), 1)],
                       sf_current_angle = 0\<rparr>,
          heap_next = 1\<rparr>"
      by (rule frame_click_example)
    show "frame \<lparr>running = True, rotate_on = False,
          segment = \<lparr>seg_radius = 200, seg_size = 6, seg_origin = (210, 325), seg_centered_angle = 0\<rparr>,
          snowflake = \<lparr>sf_radius = 150, sf_size = 6, sf_origin = (600, 325), sf_mirror = True,
                       sf_pixels = [((0, \<lparr>radius = 135 / 2, theta = 0\<rparr>), 1)],
                       sf_current_angle = 0\<rparr>,
          heap_next = 1\<rparr>
        \<lparr>events = [], MB1 = True, mouse_pos = (300, 325)\<rparr> =
      Inr \<lparr>running = True, rotate_on = False,
          segment = \<lparr>seg_radius = 200, seg_size = 6, seg_origin = (210, 325), seg_centered_angle = 0\<rparr>,
          snowflake = \<lparr>sf_radius = 150, sf_size = 6, sf_origin = (600, 325), sf_mirror = True,
                       sf_pixels = [((0, \<lparr>radius = 135 / 2, theta = 0\<rparr>), 1),
                                    ((1, \<lparr>radius = 135 / 2, theta = 0\<rparr>), 1)],
                       sf_current_angle = 0\<rparr>,
          heap_next = 2\<rparr>"
      by (rule frame_click_again)
    show "sf_pixels (snowflake \<lparr>running = True, rotate_on = False,
          segment = \<lparr>seg_radius = 200, seg_size = 6, seg_origin = (210, 325), seg_centered_angle = 0\<rparr>,
          snowflake = \<lparr>sf_radius = 150, sf_size = 6, sf_origin = (600, 325), sf_mirror = True,
                       sf_pixels = [((0, \<lparr>radius = 135 / 2, theta = 0\<rparr>), 1),
                                    ((1, \<lparr>radius = 135 / 2, theta = 0\<rparr>), 1)],
                       sf_current_angle = 0\<rparr>,
          heap_next = 2\<rparr>)
       = [((0, \<lparr>radius = 135 / 2, theta = 0\<rparr>), 1), ((1, \<lparr>radius = 135 / 2, theta = 0\<rparr>), 1)]"
      by simp
  qed
  from a b c d show ?thesis by blast
qed

subsection \<open>get_region\<close>

text \<open>
  In both classes the rectangle for \<^verbatim>\<open>update=True\<close> has the corner of the drawing
  rectangle, and its last two numbers are the far corner of the drawing rectangle moved
  out by \<open>LINE_THICKNESS\<close>.
\<close>

lemma snowflake_get_region_corner:
  "rect_left (snowflake_get_region sf True) = rect_left (snowflake_get_region sf False)
   \<and> rect_top (snowflake_get_region sf True) = rect_top (snowflake_get_region sf False)
   \<and> rect_width (snowflake_get_region sf True)
       = rect_left (snowflake_get_region sf False) + rect_width (snowflake_get_region sf False)
         + real_of_int LINE_THICKNESS
   \<and> rect_height (snowflake_get_region sf True)
       = rect_top (snowflake_get_region sf False) + rect_height (snowflake_get_region sf False)
         + real_of_int LINE_THICKNESS"
  by (cases "sf_origin sf") (simp add: snowflake_get_region_def LINE_THICKNESS_def)

lemma segment_get_region_corner:
  assumes "segment_get_region seg True = Inr a" and "segment_get_region seg False = Inr b"
  shows "rect_left a = rect_left b \<and> rect_top a = rect_top b
   \<and> rect_width a = rect_left b + rect_width b + real_of_int LINE_THICKNESS
   \<and> rect_height a = rect_top b + rect_height b + real_of_int LINE_THICKNESS"
  using assms
  by (cases "seg_origin seg")
     (auto simp: segment_get_region_def LINE_THICKNESS_def Let_def split: sum.splits if_splits)

text \<open>
  C9 fails on the code: for the snowflake of the main loop, \<^verbatim>\<open>get_region(update=False)\<close>
  is the padded box from 446 to 754 across, and \<^verbatim>\<open>get_region(update=True)\<close> holds 758
  where a far edge of 754 or a width of 308 would describe that box; read as the width
  \<^verbatim>\<open>pygame.Rect\<close> takes it for, its far edge is at 1204.
\<close>

theorem get_region_update_not_same_area:
  "snowflake_get_region (snowflake init_state) True
     = \<lparr>rect_left = 446, rect_top = 171, rect_width = 758, rect_height = 483\<rparr>
   \<and> snowflake_get_region (snowflake init_state) False
     = \<lparr>rect_left = 446, rect_top = 171, rect_width = 308, rect_height = 308\<rparr>
   \<and> rect_left (snowflake_get_region (snowflake init_state) False)
       + rect_width (snowflake_get_region (snowflake init_state) False) = 754
   \<and> rect_left (snowflake_get_region (snowflake init_state) True)
       + rect_width (snowflake_get_region (snowflake init_state) True) = 1204"
  by (simp add: snowflake_get_region_def init_state_def new_Snowflake_def LINE_THICKNESS_def
      SNOWFLAKE_RADIUS_def SNOWFLAKE_POSITION_def)

end
